theory Spec2Isabelle
  imports Main
begin

section \<open>The shapefile uploader: a shallow embedding of \<open>App.jsx\<close>\<close>

text \<open>
  The component \<open>App\<close> of \<open>src/shapefile-uploader/src/App.jsx\<close> keeps its state in
  React hooks and changes it through the hooks' setters. Each handler of the source is
  embedded as a function that returns the setter calls it makes, in order; a handler's
  effect on the state is the result of applying those calls one after the other.
  Values a handler reads from its render closure (\<open>layers\<close>, \<open>selectedColor\<close>,
  \<open>activeFeature\<close>) are arguments of their own, since a closure can be older than the
  state the setter calls land on. What the platform supplies (the clock, the random
  token, the outcome of \<open>fetch\<close>, \<open>JSON.parse\<close>) is an argument too.

  Record fields carry the name of their record in front (\<open>layer_id\<close> for \<open>layer.id\<close>,
  \<open>status_text\<close> for \<open>statusMessage.text\<close>, \<open>active_layerId\<close> for
  \<open>activeFeature.layerId\<close>), because several objects of the source share field names;
  the fields of the component's state keep the names of the hooks.
\<close>

subsection \<open>JavaScript values\<close>

text \<open>
  A number is an IEEE double: \<open>Finite m e\<close> stands for \<open>m * 2^e\<close> (both zeros are
  \<open>Finite 0 e\<close>). Objects are association lists; the keys of a parsed object are distinct.
\<close>

datatype js_number = Finite int int | Infinite | NaN

datatype js_value =
    JUndefined
  | JNull
  | JBool bool
  | JNum js_number
  | JStr string
  | JArr "js_value list"
  | JObj "(string \<times> js_value) list"

fun number_truthy :: "js_number \<Rightarrow> bool" where
  "number_truthy (Finite m e) = (m \<noteq> 0)"
| "number_truthy Infinite = True"
| "number_truthy NaN = False"

text \<open>ToBoolean, as \<open>if (v)\<close>, \<open>v && w\<close> and \<open>v || w\<close> apply it.\<close>

fun truthy :: "js_value \<Rightarrow> bool" where
  "truthy JUndefined = False"
| "truthy JNull = False"
| "truthy (JBool b) = b"
| "truthy (JNum n) = number_truthy n"
| "truthy (JStr s) = (s \<noteq> [])"
| "truthy (JArr vs) = True"
| "truthy (JObj kvs) = True"

subsection \<open>Strings\<close>

text \<open>
  Strings are byte strings. \<open>toLowerCase\<close> is modelled on the ASCII letters and leaves
  every other byte alone; the source only compares its result with \<open>shp\<close>, \<open>shx\<close> and
  \<open>dbf\<close>, and no character outside ASCII lower-cases to one of the letters of these
  words, so the comparison comes out as in JavaScript.
\<close>

definition toLowerCase_char :: "char \<Rightarrow> char" where
  "toLowerCase_char c =
     (case map_of (zip ''ABCDEFGHIJKLMNOPQRSTUVWXYZ'' ''abcdefghijklmnopqrstuvwxyz'') c of
        None \<Rightarrow> c
      | Some l \<Rightarrow> l)"

definition toLowerCase :: "string \<Rightarrow> string" where
  "toLowerCase s = map toLowerCase_char s"

text \<open>
  \<open>s.split('.')\<close>: the pieces of \<open>s\<close> between the dots, never an empty array
  (\<open>''''.split('.')\<close> is \<open>['''']\<close>), and \<open>pop()\<close>, its last piece.
\<close>

fun split :: "char \<Rightarrow> string \<Rightarrow> string list" where
  "split sep [] = [[]]"
| "split sep (c # cs) =
     (if c = sep then [] # split sep cs
      else (case split sep cs of [] \<Rightarrow> [[c]] | w # ws \<Rightarrow> (c # w) # ws))"

definition pop :: "string list \<Rightarrow> string" where
  "pop pieces = last pieces"

text \<open>The decimal digits of a number, as a template literal prints an array length.\<close>

fun digits :: "nat \<Rightarrow> string" where
  "digits n =
     (if n < 10 then [''0123456789'' ! n]
      else digits (n div 10) @ [''0123456789'' ! (n mod 10)])"

subsection \<open>File selection: \<open>handleFiles\<close> and \<open>getMissingFiles\<close>\<close>

record file_obj =
  file_name :: string
  file_size :: nat

text \<open>\<open>file.name.split('.').pop().toLowerCase()\<close>\<close>

definition extension :: "file_obj \<Rightarrow> string" where
  "extension f = toLowerCase (pop (split (CHR ''.'') (file_name f)))"

definition relevant :: "string list" where
  "relevant = [''shp'', ''shx'', ''dbf'']"

text \<open>
  The loop of \<open>handleFiles\<close>, with its four variables \<open>newSelectedFiles\<close>, \<open>hasShp\<close>,
  \<open>hasShx\<close> and \<open>hasDbf\<close>.
\<close>

fun handleFiles_loop ::
  "file_obj list \<Rightarrow> file_obj list \<times> bool \<times> bool \<times> bool \<Rightarrow> file_obj list \<times> bool \<times> bool \<times> bool" where
  "handleFiles_loop [] acc = acc"
| "handleFiles_loop (f # fs) (newSelectedFiles, hasShp, hasShx, hasDbf) =
     (if extension f \<in> set relevant
      then handleFiles_loop fs
             (newSelectedFiles @ [f],
              (if extension f = ''shp'' then True else hasShp),
              (if extension f = ''shx'' then True else hasShx),
              (if extension f = ''dbf'' then True else hasDbf))
      else handleFiles_loop fs (newSelectedFiles, hasShp, hasShx, hasDbf))"

definition getMissingFiles :: "bool \<Rightarrow> bool \<Rightarrow> bool \<Rightarrow> string list" where
  "getMissingFiles hasShp hasShx hasDbf =
     (if \<not> hasShp then [''.shp''] else []) @
     (if \<not> hasShx then [''.shx''] else []) @
     (if \<not> hasDbf then [''.dbf''] else [])"

record validation =
  isComplete :: bool
  missingFiles :: "string list"

text \<open>
  \<open>handleFiles\<close> returns the list it hands to \<open>setSelectedFiles\<close> and the object it returns.
\<close>

definition handleFiles :: "file_obj list \<Rightarrow> file_obj list \<times> validation" where
  "handleFiles files =
     (case handleFiles_loop files ([], False, False, False) of
        (newSelectedFiles, hasShp, hasShx, hasDbf) \<Rightarrow>
          (newSelectedFiles,
           \<lparr>isComplete = hasShp \<and> hasShx \<and> hasDbf,
            missingFiles = getMissingFiles hasShp hasShx hasDbf\<rparr>))"

definition classify :: "file_obj list \<Rightarrow> file_obj list" where
  "classify files = fst (handleFiles files)"

subsection \<open>The state of the component\<close>

record layer =
  layer_id :: int
  layer_name :: string
  layer_color :: string
  layer_data :: js_value
  layer_visible :: bool

record active_feature =
  active_layerId :: int
  active_featureId :: js_value

record status =
  status_text :: string
  status_type :: string
  status_visible :: bool

text \<open>
  A call of a hook's setter, of \<open>setTimeout\<close> included. \<open>SetLayers\<close> and
  \<open>UpdateStatusMessage\<close> are the calls that pass a function of the previous value
  (\<open>setLayers(prevLayers => ...)\<close>, \<open>setStatusMessage(prev => ...)\<close>); the others pass
  the new value. A timeout's callback is the list of calls it makes when it runs.
\<close>

datatype call =
    SetSelectedFiles "file_obj list"
  | SetLayers "layer list \<Rightarrow> layer list"
  | SetActiveFeature "active_feature option"
  | SetActiveProperties js_value
  | SetStatusMessage status
  | UpdateStatusMessage "status \<Rightarrow> status"
  | SetTimeout "call list" nat

text \<open>
  The hooks of \<open>App\<close> (\<open>null\<close> is \<open>None\<close> for \<open>activeFeature\<close> and \<open>JNull\<close> for
  \<open>activeProperties\<close>), and the callbacks of the timeouts that are still pending, oldest
  first, each with its delay in milliseconds.
\<close>

record app_state =
  selectedFiles :: "file_obj list"
  selectedColor :: string
  layers :: "layer list"
  activeFeature :: "active_feature option"
  activeProperties :: js_value
  statusMessage :: status
  basemap :: string
  timeouts :: "(call list \<times> nat) list"

definition initial :: app_state where
  "initial =
     \<lparr>selectedFiles = [], selectedColor = ''#3388ff'', layers = [], activeFeature = None,
      activeProperties = JNull,
      statusMessage = \<lparr>status_text = [], status_type = [], status_visible = False\<rparr>,
      basemap = ''osm'', timeouts = []\<rparr>"

fun apply_call :: "call \<Rightarrow> app_state \<Rightarrow> app_state" where
  "apply_call (SetSelectedFiles fs) s = s\<lparr>selectedFiles := fs\<rparr>"
| "apply_call (SetLayers f) s = s\<lparr>layers := f (layers s)\<rparr>"
| "apply_call (SetActiveFeature a) s = s\<lparr>activeFeature := a\<rparr>"
| "apply_call (SetActiveProperties p) s = s\<lparr>activeProperties := p\<rparr>"
| "apply_call (SetStatusMessage m) s = s\<lparr>statusMessage := m\<rparr>"
| "apply_call (UpdateStatusMessage f) s = s\<lparr>statusMessage := f (statusMessage s)\<rparr>"
| "apply_call (SetTimeout callback delay) s = s\<lparr>timeouts := timeouts s @ [(callback, delay)]\<rparr>"

text \<open>A handler's calls, applied in the order it makes them.\<close>

definition run :: "call list \<Rightarrow> app_state \<Rightarrow> app_state" where
  "run calls s = fold apply_call calls s"

text \<open>
  The states a handler passes through: the state after each of its calls, in order. The
  last of them is the state \<open>run\<close> gives.
\<close>

fun trace :: "call list \<Rightarrow> app_state \<Rightarrow> app_state list" where
  "trace [] s = []"
| "trace (c # calls) s = apply_call c s # trace calls (apply_call c s)"

text \<open>
  The \<open>k\<close>-th pending timeout fires: it leaves the queue and its callback runs. Time
  itself is not modelled, only the order of the events.
\<close>

definition fire_timeout :: "nat \<Rightarrow> app_state \<Rightarrow> app_state" where
  "fire_timeout k s =
     (if k < length (timeouts s)
      then run (fst (timeouts s ! k)) (s\<lparr>timeouts := take k (timeouts s) @ drop (Suc k) (timeouts s)\<rparr>)
      else s)"

subsection \<open>\<open>handleFiles\<close> as a handler\<close>

definition handleFiles_calls :: "file_obj list \<Rightarrow> call list" where
  "handleFiles_calls files = [SetSelectedFiles (fst (handleFiles files))]"

subsection \<open>Layers: \<open>addGeoJsonLayer\<close> and \<open>toggleLayerVisibility\<close>\<close>

text \<open>
  \<open>addGeoJsonLayer\<close> reads \<open>layers\<close> and \<open>selectedColor\<close> from the render its closure
  belongs to (\<open>render\<close>) and the clock (\<open>now\<close>, the value of \<open>Date.now()\<close>); the new layer
  is appended to the list the setter finds.
\<close>

definition addGeoJsonLayer :: "app_state \<Rightarrow> int \<Rightarrow> js_value \<Rightarrow> call list" where
  "addGeoJsonLayer render now geojsonData =
     (let layerName = ''Layer '' @ digits (length (layers render) + 1);
          newLayer = \<lparr>layer_id = now, layer_name = layerName,
                      layer_color = selectedColor render, layer_data = geojsonData,
                      layer_visible = True\<rparr>
      in [SetLayers (\<lambda>prevLayers. prevLayers @ [newLayer])])"

definition toggleLayerVisibility :: "int \<Rightarrow> bool \<Rightarrow> call list" where
  "toggleLayerVisibility layerId visible =
     [SetLayers (\<lambda>prevLayers.
        map (\<lambda>layer. if layer_id layer = layerId then layer\<lparr>layer_visible := visible\<rparr> else layer)
          prevLayers)]"

text \<open>
  A session in which every append is made by a handler of the latest render: the
  closure's \<open>layers\<close> is the collection the new layer lands on. Each append has its own
  clock reading, colour and data.
\<close>

fun append_all :: "(int \<times> string \<times> js_value) list \<Rightarrow> app_state \<Rightarrow> app_state" where
  "append_all [] s = s"
| "append_all ((now, picked, geojsonData) # rest) s =
     append_all rest
       (run (addGeoJsonLayer (s\<lparr>selectedColor := picked\<rparr>) now geojsonData) s)"

text \<open>What the component renders: the visible layers, and the inspector's attributes.\<close>

definition rendered_layers :: "app_state \<Rightarrow> layer list" where
  "rendered_layers s = filter layer_visible (layers s)"

definition inspector :: "app_state \<Rightarrow> js_value option" where
  "inspector s = (if truthy (activeProperties s) then Some (activeProperties s) else None)"

subsection \<open>Selection: \<open>onFeatureClick\<close> and \<open>onMapClick\<close>\<close>

text \<open>
  The feature under the click (\<open>e.target.feature\<close>): its \<open>id\<close> and \<open>properties\<close>,
  \<open>JUndefined\<close> when it has none. \<open>token\<close> is the value of
  \<open>Math.random().toString(36).substring(7)\<close>.
\<close>

record feature =
  feature_id :: js_value
  feature_properties :: js_value

definition onFeatureClick :: "app_state \<Rightarrow> string \<Rightarrow> feature \<Rightarrow> int \<Rightarrow> call list" where
  "onFeatureClick render token e_target_feature layerId =
     (case activeFeature render of
        None \<Rightarrow> []
      | Some active \<Rightarrow>
          if active_layerId active \<noteq> layerId then [SetActiveFeature None] else []) @
     [SetActiveFeature
        (Some \<lparr>active_layerId = layerId,
               active_featureId = (if truthy (feature_id e_target_feature)
                                   then feature_id e_target_feature else JStr token)\<rparr>),
      SetActiveProperties (feature_properties e_target_feature)]"

definition onMapClick :: "call list" where
  "onMapClick = [SetActiveFeature None, SetActiveProperties JNull]"

subsection \<open>Upload: \<open>uploadShapefile\<close>\<close>

text \<open>
  The response \<open>fetch\<close> resolves to: its \<open>ok\<close> flag and what \<open>await response.json()\<close>
  gives, the parsed body (\<open>Inr\<close>) or the message of the error the promise rejects with
  (\<open>Inl\<close>). The outcome of \<open>fetch\<close> itself is a \<open>string + response\<close> in the same way.
\<close>

record response =
  response_ok :: bool
  response_json :: "string + js_value"

text \<open>
  What the engine answers during one attempt: the message of the \<open>TypeError\<close> that
  reading a property of \<open>null\<close> throws; the message of \<open>new Error(v)\<close> for the value \<open>v\<close> of
  \<open>data.error\<close> when \<open>v\<close> is not a string (\<open>String(v)\<close>); and what \<open>JSON.parse(data)\<close> returns
  (\<open>Inr\<close>) or the message of what it throws (\<open>Inl\<close>) when \<open>data\<close> is a string.
\<close>

record engine =
  null_read_message :: string
  coerced_message :: string
  JSON_parse_data :: "string + js_value"

definition loading_status :: status where
  "loading_status =
     \<lparr>status_text = ''Uploading shapefile...'', status_type = ''loading'', status_visible = True\<rparr>"

definition success_status :: status where
  "success_status =
     \<lparr>status_text = ''Shapefile loaded successfully!'', status_type = ''success'',
      status_visible = True\<rparr>"

definition error_status :: "string \<Rightarrow> status" where
  "error_status message =
     \<lparr>status_text = ''Error: '' @ message, status_type = ''error'', status_visible = True\<rparr>"

text \<open>
  \<open>data.error\<close>: the property of an object, \<open>undefined\<close> on any other value but \<open>null\<close>
  and \<open>undefined\<close>, where the read throws.
\<close>

fun data_error :: "engine \<Rightarrow> js_value \<Rightarrow> string + js_value" where
  "data_error E JNull = Inl (null_read_message E)"
| "data_error E JUndefined = Inl (null_read_message E)"
| "data_error E (JObj kvs) = Inr (case map_of kvs ''error'' of None \<Rightarrow> JUndefined | Some v \<Rightarrow> v)"
| "data_error E v = Inr JUndefined"

text \<open>The message of \<open>new Error(v)\<close>.\<close>

fun Error_message :: "engine \<Rightarrow> js_value \<Rightarrow> string" where
  "Error_message E (JStr s) = s"
| "Error_message E v = coerced_message E"

text \<open>The files of the request body, in the order of the closure's selection.\<close>

definition formData :: "app_state \<Rightarrow> file_obj list" where
  "formData render = selectedFiles render"

text \<open>The calls \<open>uploadShapefile\<close> makes before it waits for \<open>fetch\<close>.\<close>

definition uploadShapefile_begin :: "call list" where
  "uploadShapefile_begin = [SetStatusMessage loading_status]"

text \<open>
  The \<open>try\<close> block from the first \<open>await\<close> on: the calls it makes, and how it ends, with
  the message of the error thrown (\<open>Inl\<close>) or, at its last statement, with the data of
  the layer it added (\<open>Inr\<close>).
\<close>

definition uploadShapefile_try ::
  "engine \<Rightarrow> app_state \<Rightarrow> int \<Rightarrow> string + response \<Rightarrow> call list \<times> (string + js_value)" where
  "uploadShapefile_try E render now fetched =
     (case fetched of
        Inl message \<Rightarrow> ([], Inl message)
      | Inr response \<Rightarrow>
          (case response_json response of
             Inl message \<Rightarrow> ([], Inl message)
           | Inr data \<Rightarrow>
               if response_ok response then
                 (case data_error E data of
                    Inl message \<Rightarrow> ([], Inl message)
                  | Inr error \<Rightarrow>
                      if truthy error then ([], Inl (Error_message E error))
                      else
                        (case (case data of JStr text \<Rightarrow> JSON_parse_data E | _ \<Rightarrow> Inr data) of
                           Inl message \<Rightarrow> ([SetStatusMessage success_status], Inl message)
                         | Inr geojsonData \<Rightarrow>
                             ([SetStatusMessage success_status] @
                              addGeoJsonLayer render now geojsonData @
                              [SetSelectedFiles []],
                              Inr geojsonData)))
               else
                 (case data_error E data of
                    Inl message \<Rightarrow> ([], Inl message)
                  | Inr error \<Rightarrow>
                      ([], Inl (if truthy error then Error_message E error
                                else ''Failed to upload shapefile'')))))"

text \<open>The callback of the timeout: \<open>setStatusMessage(prev => ({ ...prev, visible: false }))\<close>.\<close>

definition hide_status :: "call list" where
  "hide_status = [UpdateStatusMessage (\<lambda>prev. prev\<lparr>status_visible := False\<rparr>)]"

text \<open>
  \<open>uploadShapefile\<close> from the first \<open>await\<close> on: the \<open>try\<close> block, the \<open>catch\<close> block when
  an error was thrown, and the \<open>finally\<close> block.
\<close>

definition uploadShapefile_resume ::
  "engine \<Rightarrow> app_state \<Rightarrow> int \<Rightarrow> string + response \<Rightarrow> call list" where
  "uploadShapefile_resume E render now fetched =
     (case uploadShapefile_try E render now fetched of
        (calls, ended) \<Rightarrow>
          calls @
          (case ended of
             Inl message \<Rightarrow> [SetStatusMessage (error_status message)]
           | Inr geojsonData \<Rightarrow> []) @
          [SetTimeout hide_status 5000])"

text \<open>
  The outcome of an attempt: \<open>Failed\<close> with the message of the error the \<open>catch\<close> block
  received, \<open>LayerAdded\<close> when the \<open>try\<close> block ran to its end.
\<close>

datatype outcome = LayerAdded js_value | Failed string

definition upload_outcome :: "engine \<Rightarrow> app_state \<Rightarrow> int \<Rightarrow> string + response \<Rightarrow> outcome" where
  "upload_outcome E render now fetched =
     (case snd (uploadShapefile_try E render now fetched) of
        Inl message \<Rightarrow> Failed message
      | Inr geojsonData \<Rightarrow> LayerAdded geojsonData)"

text \<open>The notifications a list of calls hands to \<open>setStatusMessage\<close>, and the terminal ones.\<close>

fun notifications :: "call list \<Rightarrow> status list" where
  "notifications [] = []"
| "notifications (SetStatusMessage m # calls) = m # notifications calls"
| "notifications (c # calls) = notifications calls"

definition terminal :: "status \<Rightarrow> bool" where
  "terminal m = (status_type m = ''success'' \<or> status_type m = ''error'')"

definition terminal_notifications :: "call list \<Rightarrow> status list" where
  "terminal_notifications calls = filter terminal (notifications calls)"

subsection \<open>Sample inputs\<close>

text \<open>
  The inputs the closed theorems below are evaluated at. The engine is one whose
  \<open>JSON.parse\<close> is handed a text that is not JSON.
\<close>

definition sample_engine :: engine where
  "sample_engine =
     \<lparr>null_read_message = ''data is null'', coerced_message = ''[object Object]'',
      JSON_parse_data = Inl ''Unexpected token o in JSON at position 0''\<rparr>"

definition sample_files :: "file_obj list" where
  "sample_files =
     [\<lparr>file_name = ''a.shp'', file_size = 2048\<rparr>, \<lparr>file_name = ''a.shx'', file_size = 108\<rparr>,
      \<lparr>file_name = ''a.dbf'', file_size = 512\<rparr>, \<lparr>file_name = ''a.png'', file_size = 900\<rparr>]"

definition two_layers :: app_state where
  "two_layers =
     append_all [(1700000000000, ''#3388ff'', JObj []), (1700000004000, ''#ff0000'', JObj [])]
       initial"

definition parcel :: feature where
  "parcel = \<lparr>feature_id = JStr ''parcel-7'',
             feature_properties = JObj [(''owner'', JStr ''city'')]\<rparr>"

definition road :: feature where
  "road = \<lparr>feature_id = JUndefined, feature_properties = JObj [(''lanes'', JStr ''2'')]\<rparr>"

definition picked :: app_state where
  "picked = run (handleFiles_calls sample_files) initial"

definition refusal :: response where
  "refusal =
     \<lparr>response_ok = True,
      response_json = Inr (JObj [(''error'', JStr ''unsupported projection'')])\<rparr>"

definition not_found :: response where
  "not_found =
     \<lparr>response_ok = False, response_json = Inr (JObj [(''detail'', JStr ''Not Found'')])\<rparr>"

definition parcel_selected :: app_state where
  "parcel_selected = run (onFeatureClick two_layers ''k3x9'' parcel 1700000000000) two_layers"


definition dotless :: "file_obj list" where
  "dotless =
     [\<lparr>file_name = ''shp'', file_size = 4096\<rparr>, \<lparr>file_name = ''SHX'', file_size = 108\<rparr>,
      \<lparr>file_name = ''dbf'', file_size = 512\<rparr>]"

section \<open>Properties\<close>

subsection \<open>Running calls\<close>

lemma run_Nil: "run [] s = s"
  by (simp add: run_def)

lemma run_Cons: "run (c # cs) s = run cs (apply_call c s)"
  by (simp add: run_def)

lemma run_append: "run (cs @ ds) s = run ds (run cs s)"
  by (simp add: run_def)

subsection \<open>The file validator\<close>

lemma split_not_Nil: "split sep s \<noteq> []"
  by (induction s) (auto split: list.split)

lemma split_without_sep: "sep \<notin> set s \<Longrightarrow> split sep s = [s]"
  by (induction s) auto

lemma split_with_sep: "\<exists>w v vs. split sep (a @ sep # b) = w # v # vs"
proof (induction a)
  case Nil
  then show ?case by (cases "split sep b") (auto simp: split_not_Nil)
next
  case (Cons c a)
  then show ?case by auto
qed

lemma last_split_append: "last (split sep (a @ sep # b)) = last (split sep b)"
proof (induction a)
  case Nil
  then show ?case by (simp add: split_not_Nil)
next
  case (Cons c a)
  obtain w v vs where pieces: "split sep (a @ sep # b) = w # v # vs"
    using split_with_sep by blast
  with Cons show ?case by auto
qed

text \<open>
  What \<open>handleFiles\<close> takes for the extension: the text after the last dot of the name,
  and the whole name when it has no dot.
\<close>

lemma extension_after_last_dot:
  "file_name f = base @ CHR ''.'' # ext \<Longrightarrow> CHR ''.'' \<notin> set ext \<Longrightarrow>
   extension f = toLowerCase ext"
  by (simp add: extension_def pop_def last_split_append split_without_sep)

lemma extension_without_dot:
  "CHR ''.'' \<notin> set (file_name f) \<Longrightarrow> extension f = toLowerCase (file_name f)"
  by (simp add: extension_def pop_def split_without_sep)

text \<open>The loop: what its four variables hold when it ends.\<close>

lemma handleFiles_loop_eq:
  "handleFiles_loop fs (sel, a, b, c) =
     (sel @ filter (\<lambda>f. extension f \<in> set relevant) fs,
      a \<or> (\<exists>f\<in>set fs. extension f = ''shp''),
      b \<or> (\<exists>f\<in>set fs. extension f = ''shx''),
      c \<or> (\<exists>f\<in>set fs. extension f = ''dbf''))"
proof (induction fs arbitrary: sel a b c)
  case Nil
  show ?case by simp
next
  case (Cons f fs)
  show ?case
  proof (cases "extension f \<in> set relevant")
    case True
    then show ?thesis using Cons.IH by auto
  next
    case False
    then have "extension f \<noteq> ''shp''" "extension f \<noteq> ''shx''" "extension f \<noteq> ''dbf''"
      by (auto simp: relevant_def)
    with False show ?thesis using Cons.IH by simp
  qed
qed

lemma classify_filter: "classify files = filter (\<lambda>f. extension f \<in> set relevant) files"
  by (simp add: classify_def handleFiles_def handleFiles_loop_eq)

lemma has_in_classify:
  "e \<in> set relevant \<Longrightarrow>
     (\<exists>f\<in>set (classify files). extension f = e) = (\<exists>f\<in>set files. extension f = e)"
  by (auto simp: classify_filter)

lemma handleFiles_flags:
  "snd (handleFiles files) =
     \<lparr>isComplete = (\<exists>f\<in>set files. extension f = ''shp'') \<and>
                   (\<exists>f\<in>set files. extension f = ''shx'') \<and>
                   (\<exists>f\<in>set files. extension f = ''dbf''),
      missingFiles = getMissingFiles (\<exists>f\<in>set files. extension f = ''shp'')
                       (\<exists>f\<in>set files. extension f = ''shx'')
                       (\<exists>f\<in>set files. extension f = ''dbf'')\<rparr>"
  by (simp add: handleFiles_def handleFiles_loop_eq)

lemma dotted_absent:
  "{CHR ''.'' # e | e. e \<in> set relevant \<and> \<not> P e} =
     (if P ''shp'' then {} else {''.shp''}) \<union>
     (if P ''shx'' then {} else {''.shx''}) \<union>
     (if P ''dbf'' then {} else {''.dbf''})"
  by (auto simp: relevant_def)

lemma set_getMissingFiles:
  "set (getMissingFiles a b c) =
     (if a then {} else {''.shp''}) \<union> (if b then {} else {''.shx''}) \<union>
     (if c then {} else {''.dbf''})"
  by (simp add: getMissingFiles_def)

text \<open>
  Claim C6. \<open>classify\<close> is to return exactly the files whose extension, compared without
  regard to case, is \<open>shp\<close>, \<open>shx\<close> or \<open>dbf\<close>, and to leave out every file with no
  extension. The source takes the last piece of \<open>name.split('.')\<close> for the extension, and
  for a name with no dot that piece is the whole name (\<open>extension_without_dot\<close>): the file
  named \<open>shp\<close> has no extension and is kept. For names with a dot the filter is the one
  claimed (\<open>classify_filter\<close>, \<open>extension_after_last_dot\<close>).
\<close>

theorem classify_keeps_dotless_shp:
  "CHR ''.'' \<notin> set (file_name \<lparr>file_name = ''shp'', file_size = 4096\<rparr>) \<and>
   classify [\<lparr>file_name = ''shp'', file_size = 4096\<rparr>] =
     [\<lparr>file_name = ''shp'', file_size = 4096\<rparr>]"
  by (simp add: classify_def handleFiles_def extension_def pop_def toLowerCase_def
        toLowerCase_char_def relevant_def)

text \<open>
  The flags against the classified files, with the extension of a file taken as
  \<open>handleFiles\<close> extracts it: \<open>isComplete\<close> holds exactly when each of \<open>shp\<close>, \<open>shx\<close> and
  \<open>dbf\<close> is so extracted from some classified file, and \<open>missingFiles\<close> holds exactly the
  dotted ones that are extracted from none.
\<close>

lemma flags_by_extracted_extension:
  "isComplete (snd (handleFiles files)) =
     ((\<exists>f\<in>set (classify files). extension f = ''shp'') \<and>
      (\<exists>f\<in>set (classify files). extension f = ''shx'') \<and>
      (\<exists>f\<in>set (classify files). extension f = ''dbf''))
   \<and> set (missingFiles (snd (handleFiles files))) =
       {CHR ''.'' # e | e. e \<in> set relevant \<and> \<not> (\<exists>f\<in>set (classify files). extension f = e)}"
proof -
  have shp: "(\<exists>f\<in>set (classify files). extension f = ''shp'') =
             (\<exists>f\<in>set files. extension f = ''shp'')"
    by (rule has_in_classify) (simp add: relevant_def)
  have shx: "(\<exists>f\<in>set (classify files). extension f = ''shx'') =
             (\<exists>f\<in>set files. extension f = ''shx'')"
    by (rule has_in_classify) (simp add: relevant_def)
  have dbf: "(\<exists>f\<in>set (classify files). extension f = ''dbf'') =
             (\<exists>f\<in>set files. extension f = ''dbf'')"
    by (rule has_in_classify) (simp add: relevant_def)
  have complete: "isComplete (snd (handleFiles files)) =
     ((\<exists>f\<in>set (classify files). extension f = ''shp'') \<and>
      (\<exists>f\<in>set (classify files). extension f = ''shx'') \<and>
      (\<exists>f\<in>set (classify files). extension f = ''dbf''))"
    unfolding shp shx dbf by (simp add: handleFiles_flags)
  have "set (missingFiles (snd (handleFiles files))) =
     (if (\<exists>f\<in>set (classify files). extension f = ''shp'') then {} else {''.shp''}) \<union>
     (if (\<exists>f\<in>set (classify files). extension f = ''shx'') then {} else {''.shx''}) \<union>
     (if (\<exists>f\<in>set (classify files). extension f = ''dbf'') then {} else {''.dbf''})"
    unfolding shp shx dbf by (simp only: handleFiles_flags validation.simps set_getMissingFiles)
  also have "\<dots> =
     {CHR ''.'' # e | e. e \<in> set relevant \<and> \<not> (\<exists>f\<in>set (classify files). extension f = e)}"
    by (rule dotted_absent [where P = "\<lambda>e. \<exists>f\<in>set (classify files). extension f = e", symmetric])
  finally show ?thesis using complete by blast
qed

text \<open>
  Claim C8. \<open>isComplete\<close> is to hold if and only if the set holds a file of each of the
  extensions \<open>shp\<close>, \<open>shx\<close> and \<open>dbf\<close>, and \<open>missingFiles\<close> is to hold exactly the
  extensions that are absent. The flags follow what \<open>handleFiles\<close> extracts
  (\<open>flags_by_extracted_extension\<close>), and from a name with no dot it extracts the whole
  name (\<open>extension_without_dot\<close>): for the three files named \<open>shp\<close>, \<open>SHX\<close> and \<open>dbf\<close>, none
  of which has an extension, \<open>isComplete\<close> is true and \<open>missingFiles\<close> is empty.
\<close>

theorem dotless_files_count_as_complete:
  "CHR ''.'' \<notin> set (concat (map file_name dotless)) \<and>
   isComplete (snd (handleFiles dotless)) \<and>
   missingFiles (snd (handleFiles dotless)) = []"
  by (simp add: dotless_def handleFiles_def getMissingFiles_def extension_def pop_def
        toLowerCase_def toLowerCase_char_def relevant_def)

subsection \<open>The layer collection\<close>

lemma layers_addGeoJsonLayer:
  "layers (run (addGeoJsonLayer render now geojsonData) s) =
     layers s @ [\<lparr>layer_id = now,
                   layer_name = ''Layer '' @ digits (length (layers render) + 1),
                   layer_color = selectedColor render, layer_data = geojsonData,
                   layer_visible = True\<rparr>]"
  by (simp add: addGeoJsonLayer_def run_Cons run_Nil)

lemma append_all_ids:
  "map layer_id (layers (append_all entries s)) = map layer_id (layers s) @ map fst entries"
  by (induction entries arbitrary: s) (auto simp: layers_addGeoJsonLayer)

lemma append_all_length:
  "length (layers (append_all entries s)) = length (layers s) + length entries"
  by (induction entries arbitrary: s) (auto simp: layers_addGeoJsonLayer)

lemma append_all_names:
  "map layer_name (layers (append_all entries s)) =
     map layer_name (layers s) @
     map (\<lambda>k. ''Layer '' @ digits k)
       [length (layers s) + 1 ..< length (layers s) + length entries + 1]"
proof (induction entries arbitrary: s)
  case Nil
  show ?case by simp
next
  case (Cons entry entries)
  obtain now picked geojsonData where entry: "entry = (now, picked, geojsonData)"
    by (cases entry)
  define s' where "s' = run (addGeoJsonLayer (s\<lparr>selectedColor := picked\<rparr>) now geojsonData) s"
  have step: "append_all (entry # entries) s = append_all entries s'"
    by (simp add: entry s'_def)
  have len: "length (layers s') = length (layers s) + 1"
    by (simp add: s'_def layers_addGeoJsonLayer)
  have names: "map layer_name (layers s') =
      map layer_name (layers s) @ [''Layer '' @ digits (length (layers s) + 1)]"
    by (simp add: s'_def layers_addGeoJsonLayer del: digits.simps)
  have range: "[length (layers s) + 1 ..< length (layers s) + length (entry # entries) + 1] =
        (length (layers s) + 1) # [length (layers s') + 1 ..< length (layers s') + length entries + 1]"
    unfolding len by (simp add: upt_conv_Cons del: upt_Suc)
  show ?case
    unfolding step Cons.IH [of s'] range names by simp
qed

text \<open>
  Claim C1, as amended. The claim asks that \<open>N\<close> appends give \<open>N\<close> layers with pairwise
  distinct ids and the names \<open>Layer 1\<close> to \<open>Layer N\<close>. The id of a layer is the reading of
  the clock at its append (\<open>Date.now()\<close>), and nothing else tells two layers apart: \<open>N\<close>
  appends, each made by a handler of the latest render, starting from the empty
  collection, give \<open>N\<close> layers named \<open>Layer 1\<close> to \<open>Layer N\<close> in the order of the appends,
  whose ids are the clock readings in that order; the ids are pairwise distinct exactly
  when the readings are.
\<close>

theorem append_all_names_and_ids:
  "length (layers (append_all entries initial)) = length entries \<and>
   map layer_name (layers (append_all entries initial)) =
     map (\<lambda>k. ''Layer '' @ digits k) [1 ..< length entries + 1] \<and>
   map layer_id (layers (append_all entries initial)) = map fst entries \<and>
   distinct (map layer_id (layers (append_all entries initial))) = distinct (map fst entries)"
  by (simp add: append_all_length append_all_names append_all_ids initial_def del: digits.simps)

text \<open>
  Two appends at the same reading of the clock, the second by a handler of the render
  that followed the first: the layers are named \<open>Layer 1\<close> and \<open>Layer 2\<close> and carry the
  same id. Two appends by handlers of the first render (two uploads in flight together)
  whose responses arrive in the same millisecond: both layers are named \<open>Layer 1\<close> and
  carry the same id.
\<close>

theorem append_same_clock_reading_counterexample:
  "map layer_name (layers (append_all
      [(1700000000000, ''#3388ff'', JObj []), (1700000000000, ''#ff0000'', JObj [])] initial)) =
     [''Layer 1'', ''Layer 2''] \<and>
   \<not> distinct (map layer_id (layers (append_all
      [(1700000000000, ''#3388ff'', JObj []), (1700000000000, ''#ff0000'', JObj [])] initial))) \<and>
   map layer_name
     (layers (run (addGeoJsonLayer initial 1700000000000 (JObj []))
                (run (addGeoJsonLayer initial 1700000000000 (JObj [])) initial))) =
     [''Layer 1'', ''Layer 1''] \<and>
   map layer_id
     (layers (run (addGeoJsonLayer initial 1700000000000 (JObj []))
                (run (addGeoJsonLayer initial 1700000000000 (JObj [])) initial))) =
     [1700000000000, 1700000000000]"
  by (simp add: layers_addGeoJsonLayer initial_def)

lemma layers_toggle:
  "layers (run (toggleLayerVisibility x v) s) =
     map (\<lambda>layer. if layer_id layer = x then layer\<lparr>layer_visible := v\<rparr> else layer) (layers s)"
  by (simp add: toggleLayerVisibility_def run_Cons run_Nil)

lemma other_hooks_toggle:
  "activeFeature (run (toggleLayerVisibility x v) s) = activeFeature s"
  "activeProperties (run (toggleLayerVisibility x v) s) = activeProperties s"
  "selectedFiles (run (toggleLayerVisibility x v) s) = selectedFiles s"
  "statusMessage (run (toggleLayerVisibility x v) s) = statusMessage s"
  by (simp_all add: toggleLayerVisibility_def run_Cons run_Nil)

lemma layers_two_layers:
  "layers two_layers =
     [\<lparr>layer_id = 1700000000000, layer_name = ''Layer 1'', layer_color = ''#3388ff'',
       layer_data = JObj [], layer_visible = True\<rparr>,
      \<lparr>layer_id = 1700000004000, layer_name = ''Layer 2'', layer_color = ''#ff0000'',
       layer_data = JObj [], layer_visible = True\<rparr>]"
  by (simp add: two_layers_def layers_addGeoJsonLayer initial_def)





text \<open>
  Two handlers of one render that both append (two uploads started before either one
  ended) read the same \<open>layers.length\<close>: both layers get the same name.
\<close>

lemma appends_of_one_render_share_a_name:
  "map layer_name
     (layers (run (addGeoJsonLayer initial later geojsonData')
                (run (addGeoJsonLayer initial now geojsonData) initial))) =
   [''Layer 1'', ''Layer 1'']"
  by (simp add: layers_addGeoJsonLayer initial_def)

subsection \<open>The selection\<close>

lemma run_onFeatureClick:
  "activeFeature (run (onFeatureClick render token F L) s) =
     Some \<lparr>active_layerId = L,
           active_featureId = (if truthy (feature_id F) then feature_id F else JStr token)\<rparr>"
  "activeProperties (run (onFeatureClick render token F L) s) = feature_properties F"
  "layers (run (onFeatureClick render token F L) s) = layers s"
  by (simp_all add: onFeatureClick_def run_append run_Cons run_Nil split: option.split)

lemma run_onMapClick:
  "activeFeature (run onMapClick s) = None"
  "activeProperties (run onMapClick s) = JNull"
  "layers (run onMapClick s) = layers s"
  by (simp_all add: onMapClick_def run_Cons run_Nil)

text \<open>
  Claim C10. A visibility toggle changes neither the active selection nor the attributes
  the inspector shows, also when it hides the layer of the selection: the selection
  stays, its attributes stay on display, and no layer with the toggled id is rendered.
\<close>

theorem toggleLayerVisibility_keeps_selection:
  "activeFeature (run (toggleLayerVisibility x v) s) = activeFeature s \<and>
   activeProperties (run (toggleLayerVisibility x v) s) = activeProperties s \<and>
   inspector (run (toggleLayerVisibility x v) s) = inspector s \<and>
   (\<forall>l\<in>set (rendered_layers (run (toggleLayerVisibility x False) s)). layer_id l \<noteq> x)"
proof -
  have shown: "inspector (run (toggleLayerVisibility x v) s) = inspector s"
    by (simp add: inspector_def other_hooks_toggle)
  have hidden: "layer_id l \<noteq> x"
    if "l \<in> set (rendered_layers (run (toggleLayerVisibility x False) s))" for l
  proof -
    from that obtain l' where "l' \<in> set (layers s)"
      and l: "l = (if layer_id l' = x then l'\<lparr>layer_visible := False\<rparr> else l')"
      and "layer_visible l"
      unfolding rendered_layers_def layers_toggle by auto
    then show ?thesis by (cases "layer_id l' = x") auto
  qed
  show ?thesis
    using shown hidden by (simp add: other_hooks_toggle)
qed

theorem toggleLayerVisibility_keeps_selection_witness:
  "activeFeature
     (run (toggleLayerVisibility 1700000000000 False)
        (run (onFeatureClick two_layers ''k3x9'' parcel 1700000000000) two_layers)) =
     Some \<lparr>active_layerId = 1700000000000, active_featureId = JStr ''parcel-7''\<rparr> \<and>
   inspector
     (run (toggleLayerVisibility 1700000000000 False)
        (run (onFeatureClick two_layers ''k3x9'' parcel 1700000000000) two_layers)) =
     Some (JObj [(''owner'', JStr ''city'')]) \<and>
   map layer_id
     (rendered_layers
        (run (toggleLayerVisibility 1700000000000 False)
           (run (onFeatureClick two_layers ''k3x9'' parcel 1700000000000) two_layers))) =
     [1700000004000]"
  using toggleLayerVisibility_keeps_selection
    [of 1700000000000 False "run (onFeatureClick two_layers ''k3x9'' parcel 1700000000000) two_layers"]
  by (simp add: run_onFeatureClick inspector_def rendered_layers_def layers_toggle
        layers_two_layers parcel_def)

lemma trace_onFeatureClick:
  "map activeFeature (trace (onFeatureClick render token F L) s) =
     (case activeFeature render of
        None \<Rightarrow> []
      | Some active \<Rightarrow> if active_layerId active \<noteq> L then [None] else []) @
     [Some \<lparr>active_layerId = L,
            active_featureId = (if truthy (feature_id F) then feature_id F else JStr token)\<rparr>,
      Some \<lparr>active_layerId = L,
            active_featureId = (if truthy (feature_id F) then feature_id F else JStr token)\<rparr>]"
  "map activeProperties (trace (onFeatureClick render token F L) s) =
     (case activeFeature render of
        None \<Rightarrow> []
      | Some active \<Rightarrow> if active_layerId active \<noteq> L then [activeProperties s] else []) @
     [activeProperties s, feature_properties F]"
  by (simp_all add: onFeatureClick_def split: option.split)

lemma parcel_selected_hooks:
  "activeFeature parcel_selected =
     Some \<lparr>active_layerId = 1700000000000, active_featureId = JStr ''parcel-7''\<rparr>"
  "activeProperties parcel_selected = JObj [(''owner'', JStr ''city'')]"
  by (simp_all add: parcel_selected_def run_onFeatureClick parcel_def)

text \<open>
  Claim C7, as amended. The claim asks for no idle state between the two feature clicks
  and for no moment after the second click at which \<open>F1\<close> is on display. The handler of a
  click makes its calls one after the other: when its closure holds a selection of
  another layer it first calls \<open>setActiveFeature(null)\<close>, and it sets the attributes last.
  From any state, a click on feature \<open>F1\<close> of layer \<open>L1\<close>, a click on feature \<open>F2\<close> of
  another layer \<open>L2\<close> and a click on the map background leave the selection active on
  \<open>(L1, F1)\<close>, then active on \<open>(L2, F2)\<close> with the attributes of \<open>F2\<close> on display, then
  idle with nothing on display. Within the second click the selection passes through
  idle exactly when the closure of its handler (\<open>r2\<close>) holds a selection of another layer,
  as the closure of the latest render does, and then is active on \<open>(L2, F2)\<close>; the
  attributes of \<open>F1\<close> stay in the inspector until the last call of the handler. A feature
  is named by its own id when that is truthy, by the random token of the click otherwise.
\<close>

theorem selection_sequence:
  assumes "L2 \<noteq> L1"
  shows
    "activeFeature (run (onFeatureClick r1 t1 F1 L1) s) =
       Some \<lparr>active_layerId = L1,
             active_featureId = (if truthy (feature_id F1) then feature_id F1 else JStr t1)\<rparr> \<and>
     activeFeature (run (onFeatureClick r2 t2 F2 L2) (run (onFeatureClick r1 t1 F1 L1) s)) =
       Some \<lparr>active_layerId = L2,
             active_featureId = (if truthy (feature_id F2) then feature_id F2 else JStr t2)\<rparr> \<and>
     activeProperties (run (onFeatureClick r2 t2 F2 L2) (run (onFeatureClick r1 t1 F1 L1) s)) =
       feature_properties F2 \<and>
     activeFeature (run (onFeatureClick r2 t2 F2 L2) (run (onFeatureClick r1 t1 F1 L1) s)) \<noteq>
       Some \<lparr>active_layerId = L1, active_featureId = shown\<rparr> \<and>
     activeFeature
       (run onMapClick
         (run (onFeatureClick r2 t2 F2 L2) (run (onFeatureClick r1 t1 F1 L1) s))) = None \<and>
     inspector
       (run onMapClick
         (run (onFeatureClick r2 t2 F2 L2) (run (onFeatureClick r1 t1 F1 L1) s))) = None \<and>
     map activeFeature
       (trace (onFeatureClick r2 t2 F2 L2) (run (onFeatureClick r1 t1 F1 L1) s)) =
       (case activeFeature r2 of
          None \<Rightarrow> []
        | Some active \<Rightarrow> if active_layerId active \<noteq> L2 then [None] else []) @
       [Some \<lparr>active_layerId = L2,
              active_featureId = (if truthy (feature_id F2) then feature_id F2 else JStr t2)\<rparr>,
        Some \<lparr>active_layerId = L2,
              active_featureId = (if truthy (feature_id F2) then feature_id F2 else JStr t2)\<rparr>] \<and>
     map activeProperties
       (trace (onFeatureClick r2 t2 F2 L2) (run (onFeatureClick r1 t1 F1 L1) s)) =
       (case activeFeature r2 of
          None \<Rightarrow> []
        | Some active \<Rightarrow> if active_layerId active \<noteq> L2 then [feature_properties F1] else []) @
       [feature_properties F1, feature_properties F2] \<and>
     map activeFeature
       (trace (onFeatureClick (run (onFeatureClick r1 t1 F1 L1) s) t2 F2 L2)
          (run (onFeatureClick r1 t1 F1 L1) s)) =
       [None,
        Some \<lparr>active_layerId = L2,
              active_featureId = (if truthy (feature_id F2) then feature_id F2 else JStr t2)\<rparr>,
        Some \<lparr>active_layerId = L2,
              active_featureId = (if truthy (feature_id F2) then feature_id F2 else JStr t2)\<rparr>]"
proof -
  have idle: "inspector (run onMapClick s') = None" for s'
    by (simp add: inspector_def run_onMapClick)
  have latest: "(case activeFeature (run (onFeatureClick r1 t1 F1 L1) s) of
          None \<Rightarrow> []
        | Some active \<Rightarrow> if active_layerId active \<noteq> L2 then [None] else []) =
      [None :: active_feature option]"
    using assms by (simp add: run_onFeatureClick)
  show ?thesis
    unfolding trace_onFeatureClick latest run_onFeatureClick run_onMapClick idle
    using assms by simp
qed

theorem selection_sequence_witness:
  "(1700000004000::int) \<noteq> 1700000000000 \<and>
   activeFeature (run (onFeatureClick two_layers ''k3x9'' parcel 1700000000000) two_layers) =
     Some \<lparr>active_layerId = 1700000000000, active_featureId = JStr ''parcel-7''\<rparr> \<and>
   activeFeature
     (run (onFeatureClick parcel_selected ''q81z'' road 1700000004000)
        (run (onFeatureClick two_layers ''k3x9'' parcel 1700000000000) two_layers)) =
     Some \<lparr>active_layerId = 1700000004000, active_featureId = JStr ''q81z''\<rparr> \<and>
   activeProperties
     (run (onFeatureClick parcel_selected ''q81z'' road 1700000004000)
        (run (onFeatureClick two_layers ''k3x9'' parcel 1700000000000) two_layers)) =
     JObj [(''lanes'', JStr ''2'')] \<and>
   activeFeature
     (run onMapClick
        (run (onFeatureClick parcel_selected ''q81z'' road 1700000004000)
           (run (onFeatureClick two_layers ''k3x9'' parcel 1700000000000) two_layers))) = None"
  using selection_sequence
    [of 1700000004000 1700000000000 two_layers "''k3x9''" parcel two_layers
        parcel_selected "''q81z''" road]
  by (simp add: parcel_def road_def)

text \<open>
  The second click, made by a handler of the render that shows the first selection: the
  selection is idle after the first call of the handler, and the inspector shows the
  attributes of the first feature until the last call.
\<close>

theorem second_click_passes_through_idle_counterexample:
  "map activeFeature
     (trace (onFeatureClick parcel_selected ''q81z'' road 1700000004000) parcel_selected) =
     [None,
      Some \<lparr>active_layerId = 1700000004000, active_featureId = JStr ''q81z''\<rparr>,
      Some \<lparr>active_layerId = 1700000004000, active_featureId = JStr ''q81z''\<rparr>] \<and>
   map inspector
     (trace (onFeatureClick parcel_selected ''q81z'' road 1700000004000) parcel_selected) =
     [Some (feature_properties parcel), Some (feature_properties parcel),
      Some (feature_properties road)]"
  by (simp add: onFeatureClick_def parcel_selected_hooks inspector_def road_def parcel_def)

subsection \<open>Uploads\<close>

text \<open>The three ways the \<open>try\<close> block can end.\<close>

lemma uploadShapefile_try_shape:
  "(\<exists>message. uploadShapefile_try E render now fetched = ([], Inl message)) \<or>
   (\<exists>message. uploadShapefile_try E render now fetched =
       ([SetStatusMessage success_status], Inl message)) \<or>
   (\<exists>geojsonData. uploadShapefile_try E render now fetched =
       ([SetStatusMessage success_status] @ addGeoJsonLayer render now geojsonData @
        [SetSelectedFiles []], Inr geojsonData))"
  by (simp add: uploadShapefile_try_def split: sum.split js_value.split)

lemma run_resume_failed:
  assumes "uploadShapefile_try E render now fetched = (calls, Inl message)"
    and "calls = [] \<or> calls = [SetStatusMessage success_status]"
  shows "layers (run (uploadShapefile_resume E render now fetched) s) = layers s"
    and "selectedFiles (run (uploadShapefile_resume E render now fetched) s) = selectedFiles s"
    and "statusMessage (run (uploadShapefile_resume E render now fetched) s) = error_status message"
    and "timeouts (run (uploadShapefile_resume E render now fetched) s) =
           timeouts s @ [(hide_status, 5000)]"
  using assms by (auto simp: uploadShapefile_resume_def run_append run_Cons run_Nil)

lemma run_resume_added:
  assumes "uploadShapefile_try E render now fetched =
       ([SetStatusMessage success_status] @ addGeoJsonLayer render now geojsonData @
        [SetSelectedFiles []], Inr geojsonData)"
  shows "layers (run (uploadShapefile_resume E render now fetched) s) =
           layers s @ [\<lparr>layer_id = now,
                   layer_name = ''Layer '' @ digits (length (layers render) + 1),
                   layer_color = selectedColor render, layer_data = geojsonData,
                   layer_visible = True\<rparr>]"
    and "selectedFiles (run (uploadShapefile_resume E render now fetched) s) = []"
    and "statusMessage (run (uploadShapefile_resume E render now fetched) s) = success_status"
    and "timeouts (run (uploadShapefile_resume E render now fetched) s) =
           timeouts s @ [(hide_status, 5000)]"
  using assms
  by (simp_all add: uploadShapefile_resume_def addGeoJsonLayer_def run_append run_Cons run_Nil
        del: digits.simps)

lemma outcome_of_try:
  "uploadShapefile_try E render now fetched = (calls, Inl message) \<Longrightarrow>
     upload_outcome E render now fetched = Failed message"
  "uploadShapefile_try E render now fetched = (calls, Inr geojsonData) \<Longrightarrow>
     upload_outcome E render now fetched = LayerAdded geojsonData"
  by (simp_all add: upload_outcome_def)

lemma run_resume_by_outcome:
  "(case upload_outcome E render now fetched of
      Failed reason \<Rightarrow>
        layers (run (uploadShapefile_resume E render now fetched) s) = layers s \<and>
        selectedFiles (run (uploadShapefile_resume E render now fetched) s) = selectedFiles s
    | LayerAdded geojsonData \<Rightarrow>
        layers (run (uploadShapefile_resume E render now fetched) s) =
          layers s @ [\<lparr>layer_id = now,
                   layer_name = ''Layer '' @ digits (length (layers render) + 1),
                   layer_color = selectedColor render, layer_data = geojsonData,
                   layer_visible = True\<rparr>] \<and>
        selectedFiles (run (uploadShapefile_resume E render now fetched) s) = [])"
proof -
  consider
    (thrown) message where "uploadShapefile_try E render now fetched = ([], Inl message)"
  | (late) message where
      "uploadShapefile_try E render now fetched = ([SetStatusMessage success_status], Inl message)"
  | (added) geojsonData where
      "uploadShapefile_try E render now fetched =
         ([SetStatusMessage success_status] @ addGeoJsonLayer render now geojsonData @
          [SetSelectedFiles []], Inr geojsonData)"
    using uploadShapefile_try_shape [of E render now fetched] by blast
  then show ?thesis
  proof cases
    case thrown
    then show ?thesis
      by (simp add: outcome_of_try(1) [OF thrown] run_resume_failed [OF thrown])
  next
    case late
    then show ?thesis
      by (simp add: outcome_of_try(1) [OF late] run_resume_failed [OF late])
  next
    case added
    then show ?thesis
      by (simp add: outcome_of_try(2) [OF added] run_resume_added [OF added] del: digits.simps)
  qed
qed

lemma outcome_transport:
  "upload_outcome E render now (Inl message) = Failed message"
  by (simp add: upload_outcome_def uploadShapefile_try_def)

lemma outcome_not_ok:
  "\<not> response_ok r \<Longrightarrow> \<exists>reason. upload_outcome E render now (Inr r) = Failed reason"
  by (simp add: upload_outcome_def uploadShapefile_try_def split: sum.split)

lemma outcome_error_field:
  "response_ok r \<Longrightarrow> response_json r = Inr (JObj kvs) \<Longrightarrow> map_of kvs ''error'' = Some v \<Longrightarrow>
   truthy v \<Longrightarrow> upload_outcome E render now (Inr r) = Failed (Error_message E v)"
  by (simp add: upload_outcome_def uploadShapefile_try_def)

lemma outcome_falsy_field:
  "response_ok r \<Longrightarrow> response_json r = Inr (JObj kvs) \<Longrightarrow> map_of kvs ''error'' = Some v \<Longrightarrow>
   \<not> truthy v \<Longrightarrow> upload_outcome E render now (Inr r) = LayerAdded (JObj kvs)"
  by (simp add: upload_outcome_def uploadShapefile_try_def)

lemma outcome_fallback:
  "\<not> response_ok r \<Longrightarrow> response_json r = Inr data \<Longrightarrow> data_error E data = Inr error \<Longrightarrow>
   \<not> truthy error \<Longrightarrow>
   upload_outcome E render now (Inr r) = Failed ''Failed to upload shapefile''"
  by (simp add: upload_outcome_def uploadShapefile_try_def)

lemma clears_iff_added:
  "(\<exists>fs. SetSelectedFiles fs \<in>
          set (uploadShapefile_begin @ uploadShapefile_resume E render now fetched)) =
   (\<exists>geojsonData. upload_outcome E render now fetched = LayerAdded geojsonData)"
  using uploadShapefile_try_shape [of E render now fetched]
  by (auto simp: uploadShapefile_begin_def uploadShapefile_resume_def upload_outcome_def
        addGeoJsonLayer_def)

lemma run_uploadShapefile_begin:
  "layers (run uploadShapefile_begin s) = layers s"
  "selectedFiles (run uploadShapefile_begin s) = selectedFiles s"
  "statusMessage (run uploadShapefile_begin s) = loading_status"
  "timeouts (run uploadShapefile_begin s) = timeouts s"
  by (simp_all add: uploadShapefile_begin_def run_Cons run_Nil)

lemma selectedFiles_picked:
  "selectedFiles picked =
     [\<lparr>file_name = ''a.shp'', file_size = 2048\<rparr>, \<lparr>file_name = ''a.shx'', file_size = 108\<rparr>,
      \<lparr>file_name = ''a.dbf'', file_size = 512\<rparr>]"
  "layers picked = []"
  by (simp_all add: picked_def handleFiles_calls_def run_Cons run_Nil handleFiles_def
        sample_files_def extension_def pop_def toLowerCase_def toLowerCase_char_def relevant_def
        initial_def)

text \<open>
  Claim C3. An attempt that ends as \<open>Failed\<close> (the transport failed, the status was not a
  success, or the service reported an error in the body) leaves the layer collection and
  the file selection as they were; an attempt that ends as \<open>LayerAdded\<close> appends one
  layer and empties the selection; \<open>setSelectedFiles\<close> is called exactly in the attempts
  that end as \<open>LayerAdded\<close>.
\<close>

theorem upload_failure_preserves_layers_and_selection:
  "(case upload_outcome E render now fetched of
      Failed reason \<Rightarrow>
        layers (run (uploadShapefile_resume E render now fetched) s) = layers s \<and>
        selectedFiles (run (uploadShapefile_resume E render now fetched) s) = selectedFiles s
    | LayerAdded geojsonData \<Rightarrow>
        layers (run (uploadShapefile_resume E render now fetched) s) =
          layers s @ [\<lparr>layer_id = now,
                   layer_name = ''Layer '' @ digits (length (layers render) + 1),
                   layer_color = selectedColor render, layer_data = geojsonData,
                   layer_visible = True\<rparr>] \<and>
        selectedFiles (run (uploadShapefile_resume E render now fetched) s) = []) \<and>
   layers (run uploadShapefile_begin s) = layers s \<and>
   selectedFiles (run uploadShapefile_begin s) = selectedFiles s \<and>
   (\<exists>fs. SetSelectedFiles fs \<in>
          set (uploadShapefile_begin @ uploadShapefile_resume E render now fetched)) =
     (\<exists>geojsonData. upload_outcome E render now fetched = LayerAdded geojsonData) \<and>
   upload_outcome E render now (Inl message) = Failed message \<and>
   (\<not> response_ok r \<longrightarrow> (\<exists>reason. upload_outcome E render now (Inr r) = Failed reason)) \<and>
   (response_ok r \<and> response_json r = Inr (JObj kvs) \<and> map_of kvs ''error'' = Some v \<and>
    truthy v \<longrightarrow>
      (\<exists>reason. upload_outcome E render now (Inr r) = Failed reason))"
proof -
  have reported: "\<exists>reason. upload_outcome E render now (Inr r) = Failed reason"
    if "response_ok r" "response_json r = Inr (JObj kvs)" "map_of kvs ''error'' = Some v"
      "truthy v"
    using outcome_error_field [OF that] by blast
  show ?thesis
    using run_resume_by_outcome [of E render now fetched s]
      clears_iff_added [of E render now fetched] outcome_not_ok [of r E render now] reported
    by (simp only: run_uploadShapefile_begin outcome_transport) blast
qed

theorem upload_failure_preserves_layers_and_selection_witness:
  "response_ok refusal \<and> truthy (JStr ''unsupported projection'') \<and>
   upload_outcome sample_engine picked 1700000000000 (Inr refusal) =
     Failed ''unsupported projection'' \<and>
   layers (run (uploadShapefile_resume sample_engine picked 1700000000000 (Inr refusal))
             (run uploadShapefile_begin picked)) = [] \<and>
   selectedFiles (run (uploadShapefile_resume sample_engine picked 1700000000000 (Inr refusal))
                    (run uploadShapefile_begin picked)) =
     [\<lparr>file_name = ''a.shp'', file_size = 2048\<rparr>, \<lparr>file_name = ''a.shx'', file_size = 108\<rparr>,
      \<lparr>file_name = ''a.dbf'', file_size = 512\<rparr>]"
proof -
  have failed: "upload_outcome sample_engine picked 1700000000000 (Inr refusal) =
      Failed ''unsupported projection''"
    by (simp add: upload_outcome_def uploadShapefile_try_def refusal_def)
  have ok: "response_ok refusal"
    by (simp add: refusal_def)
  from upload_failure_preserves_layers_and_selection
    [of sample_engine picked 1700000000000 "Inr refusal" "run uploadShapefile_begin picked"]
  have "layers (run (uploadShapefile_resume sample_engine picked 1700000000000 (Inr refusal))
             (run uploadShapefile_begin picked)) = layers (run uploadShapefile_begin picked) \<and>
        selectedFiles (run (uploadShapefile_resume sample_engine picked 1700000000000 (Inr refusal))
             (run uploadShapefile_begin picked)) = selectedFiles (run uploadShapefile_begin picked)"
    by (simp add: failed)
  then show ?thesis
    using failed ok by (simp add: run_uploadShapefile_begin selectedFiles_picked)
qed

text \<open>
  Claim C4, as amended. The claim fails every upload whose body carries an \<open>error\<close>
  field; the source tests the field for truth (\<open>if (data.error)\<close>). An upload with a
  success status whose parsed body is an object with a truthy \<open>error\<close> field ends as
  \<open>Failed\<close>, the reason being the message of \<open>new Error\<close> of that value, the value itself
  when it is a string; an \<open>error\<close> field that is \<open>null\<close>, \<open>false\<close>, \<open>0\<close> or the empty
  string does not fail the upload. An upload without a success status whose body parses
  to a value other than \<open>null\<close>, with no truthy \<open>error\<close> field, ends as
  \<open>Failed\<close> with the reason \<open>Failed to upload shapefile\<close>.
\<close>

theorem upload_failure_reason:
  "(response_ok r \<and> response_json r = Inr (JObj kvs) \<and> map_of kvs ''error'' = Some v \<and>
    truthy v \<longrightarrow>
      upload_outcome E render now (Inr r) = Failed (Error_message E v)) \<and>
   (response_ok r \<and> response_json r = Inr (JObj kvs) \<and>
    map_of kvs ''error'' = Some (JStr reason) \<and> reason \<noteq> [] \<longrightarrow>
      upload_outcome E render now (Inr r) = Failed reason) \<and>
   (response_ok r \<and> response_json r = Inr (JObj kvs) \<and> map_of kvs ''error'' = Some v \<and>
    \<not> truthy v \<longrightarrow>
      upload_outcome E render now (Inr r) = LayerAdded (JObj kvs)) \<and>
   (\<not> response_ok r \<and> response_json r = Inr data \<and> data_error E data = Inr error \<and>
    \<not> truthy error \<longrightarrow>
      upload_outcome E render now (Inr r) = Failed ''Failed to upload shapefile'')"
proof -
  have stated: "upload_outcome E render now (Inr r) = Failed reason"
    if "response_ok r" "response_json r = Inr (JObj kvs)"
      "map_of kvs ''error'' = Some (JStr reason)" "reason \<noteq> []"
    using outcome_error_field [of r kvs "JStr reason" E render now] that by simp
  show ?thesis
    using stated outcome_error_field [of r kvs v E render now]
      outcome_falsy_field [of r kvs v E render now]
      outcome_fallback [of r data E error render now]
    by blast
qed

theorem upload_failure_reason_witness:
  "response_ok refusal \<and>
   upload_outcome sample_engine picked 1700000000000 (Inr refusal) =
     Failed ''unsupported projection'' \<and>
   \<not> response_ok not_found \<and>
   upload_outcome sample_engine picked 1700000000000 (Inr not_found) =
     Failed ''Failed to upload shapefile''"
proof -
  have ok: "response_ok refusal" "\<not> response_ok not_found"
    by (simp_all add: refusal_def not_found_def)
  have bodies:
    "response_json refusal = Inr (JObj [(''error'', JStr ''unsupported projection'')])"
    "response_json not_found = Inr (JObj [(''detail'', JStr ''Not Found'')])"
    by (simp_all add: refusal_def not_found_def)
  have "upload_outcome sample_engine picked 1700000000000 (Inr refusal) =
      Failed ''unsupported projection''"
    using upload_failure_reason
      [of refusal "[(''error'', JStr ''unsupported projection'')]"
          "JStr ''unsupported projection''" sample_engine picked 1700000000000
          "''unsupported projection''"]
      ok bodies
    by simp
  moreover have "upload_outcome sample_engine picked 1700000000000 (Inr not_found) =
      Failed ''Failed to upload shapefile''"
    using upload_failure_reason
      [of not_found _ _ sample_engine picked 1700000000000 _
          "JObj [(''detail'', JStr ''Not Found'')]" JUndefined]
      ok bodies
    by simp
  ultimately show ?thesis using ok by simp
qed

text \<open>
  A success status with a body whose \<open>error\<close> field is \<open>null\<close> ends as \<open>LayerAdded\<close>,
  and a failure status with the body \<open>null\<close> ends with the engine's message for the read
  of \<open>null.error\<close>.
\<close>

theorem falsy_error_field_counterexample:
  "upload_outcome sample_engine initial 1700000000000
     (Inr \<lparr>response_ok = True,
           response_json = Inr (JObj [(''error'', JNull),
                                      (''type'', JStr ''FeatureCollection''),
                                      (''features'', JArr [])])\<rparr>) =
     LayerAdded (JObj [(''error'', JNull), (''type'', JStr ''FeatureCollection''),
                       (''features'', JArr [])]) \<and>
   upload_outcome sample_engine initial 1700000000000
     (Inr \<lparr>response_ok = False, response_json = Inr JNull\<rparr>) = Failed ''data is null''"
  by (simp add: upload_outcome_def uploadShapefile_try_def sample_engine_def)

lemma terminal_statuses:
  "\<not> terminal loading_status" "terminal success_status" "terminal (error_status message)"
  by (simp_all add: terminal_def loading_status_def success_status_def error_status_def)

text \<open>
  The terminal notifications of an attempt: an error, a success, or a success and then
  an error.
\<close>

lemma terminal_notifications_upload:
  "(\<exists>message. terminal_notifications
        (uploadShapefile_begin @ uploadShapefile_resume E render now fetched) =
       [error_status message]) \<or>
   (\<exists>message. terminal_notifications
        (uploadShapefile_begin @ uploadShapefile_resume E render now fetched) =
       [success_status, error_status message]) \<or>
   terminal_notifications (uploadShapefile_begin @ uploadShapefile_resume E render now fetched) =
       [success_status]"
  using uploadShapefile_try_shape [of E render now fetched]
  by (auto simp: uploadShapefile_begin_def uploadShapefile_resume_def terminal_notifications_def
        terminal_statuses addGeoJsonLayer_def)

text \<open>
  Claim C5. Every attempt is to produce exactly one terminal notification, a success or
  an error and never both, also when the body of a success response is a string that is
  not JSON. The source calls \<open>setStatusMessage\<close> with the success notification before it
  calls \<open>JSON.parse\<close>: for such a body the attempt hands \<open>setStatusMessage\<close> the success
  notification and then, from the \<open>catch\<close> block, the error notification.
\<close>

theorem unparsable_text_body_emits_success_then_error:
  "map status_type
     (terminal_notifications
        (uploadShapefile_begin @
         uploadShapefile_resume sample_engine initial 1700000000000
           (Inr \<lparr>response_ok = True, response_json = Inr (JStr ''oops'')\<rparr>))) =
   [''success'', ''error'']"
  by (simp add: uploadShapefile_begin_def uploadShapefile_resume_def uploadShapefile_try_def
        terminal_notifications_def terminal_def sample_engine_def loading_status_def
        success_status_def error_status_def)

lemma run_SetStatusMessage:
  "timeouts (run [SetStatusMessage m] s) = timeouts s"
  "statusMessage (run [SetStatusMessage m] s) = m"
  by (simp_all add: run_Cons run_Nil)

lemma timeouts_resume:
  "timeouts (run (uploadShapefile_resume E render now fetched) s) =
     timeouts s @ [(hide_status, 5000)]"
  using uploadShapefile_try_shape [of E render now fetched]
  by (auto simp: run_resume_failed(4) run_resume_added(4))

lemma fire_hide_status:
  "k < length (timeouts s) \<Longrightarrow> fst (timeouts s ! k) = hide_status \<Longrightarrow>
   statusMessage (fire_timeout k s) = (statusMessage s)\<lparr>status_visible := False\<rparr>"
  by (simp add: fire_timeout_def hide_status_def run_Cons run_Nil)

text \<open>
  Claim C2, as amended. The claim asks that the timeout of an earlier notification leave
  a newer notification visible. The callback of the timeout clears \<open>visible\<close> of whatever
  notification is in the slot when it runs, and no timeout is ever cancelled: when a
  second notification is set after an attempt has scheduled its timeout and before that
  timeout fires, the firing hides the second notification, whose text and type stay.
\<close>

theorem stale_timeout_hides_newer_notification:
  "statusMessage
     (fire_timeout (length (timeouts s))
        (run [SetStatusMessage newer] (run (uploadShapefile_resume E render now fetched) s))) =
   newer\<lparr>status_visible := False\<rparr>"
proof -
  let ?s1 = "run (uploadShapefile_resume E render now fetched) s"
  let ?s2 = "run [SetStatusMessage newer] ?s1"
  have queue: "timeouts ?s2 = timeouts s @ [(hide_status, 5000)]"
    by (simp only: run_SetStatusMessage timeouts_resume)
  have "statusMessage (fire_timeout (length (timeouts s)) ?s2) =
        (statusMessage ?s2)\<lparr>status_visible := False\<rparr>"
    by (rule fire_hide_status) (simp_all add: queue)
  then show ?thesis by (simp only: run_SetStatusMessage)
qed

text \<open>
  A first attempt fails and schedules its timeout; a second attempt starts and shows
  \<open>Uploading shapefile...\<close>; the timeout of the first attempt fires and hides it.
\<close>

theorem stale_timeout_counterexample:
  "statusMessage
     (run uploadShapefile_begin
        (run (uploadShapefile_resume sample_engine initial 1700000000000 (Inl ''Failed to fetch''))
           (run uploadShapefile_begin initial))) = loading_status \<and>
   status_visible loading_status \<and>
   \<not> status_visible (statusMessage
     (fire_timeout 0
       (run uploadShapefile_begin
          (run (uploadShapefile_resume sample_engine initial 1700000000000 (Inl ''Failed to fetch''))
             (run uploadShapefile_begin initial)))))"
  by (simp add: uploadShapefile_begin_def uploadShapefile_resume_def uploadShapefile_try_def
        run_Cons run_Nil run_append fire_timeout_def hide_status_def initial_def loading_status_def)

text \<open>The notification an attempt leaves in the slot follows its outcome.\<close>

lemma final_status_by_outcome:
  "statusMessage (run (uploadShapefile_resume E render now fetched) s) =
     (case upload_outcome E render now fetched of
        Failed reason \<Rightarrow> error_status reason
      | LayerAdded geojsonData \<Rightarrow> success_status)"
proof -
  consider
    (thrown) message where "uploadShapefile_try E render now fetched = ([], Inl message)"
  | (late) message where
      "uploadShapefile_try E render now fetched = ([SetStatusMessage success_status], Inl message)"
  | (added) geojsonData where
      "uploadShapefile_try E render now fetched =
         ([SetStatusMessage success_status] @ addGeoJsonLayer render now geojsonData @
          [SetSelectedFiles []], Inr geojsonData)"
    using uploadShapefile_try_shape [of E render now fetched] by blast
  then show ?thesis
  proof cases
    case thrown
    then show ?thesis
      by (simp add: outcome_of_try(1) [OF thrown] run_resume_failed [OF thrown])
  next
    case late
    then show ?thesis
      by (simp add: outcome_of_try(1) [OF late] run_resume_failed [OF late])
  next
    case added
    then show ?thesis
      by (simp add: outcome_of_try(2) [OF added] run_resume_added [OF added])
  qed
qed

end
